theory Spec2Isabelle
  imports Main
begin

section \<open>JavaScript values and option objects\<close>

text \<open>
  The values that occur in the options object handed to \<open>initProject\<close> and in the
  prompt answers: \<open>undefined\<close>, booleans and strings. Conditions in the source
  (\<open>!projectName\<close>, \<open>programArgs[opt]\<close>, \<open>a || b\<close>) test JavaScript truthiness:
  \<open>undefined\<close>, \<open>false\<close> and the empty string are falsy.
\<close>

datatype jsval = JUndef | JBool bool | JStr string

fun truthy :: "jsval \<Rightarrow> bool" where
  "truthy JUndef = False"
| "truthy (JBool b) = b"
| "truthy (JStr s) = (s \<noteq> [])"

definition jsor :: "jsval \<Rightarrow> jsval \<Rightarrow> jsval" where
  "jsor a b = (if truthy a then a else b)"

text \<open>Interpolation of a value in a template literal.\<close>

fun toStr :: "jsval \<Rightarrow> string" where
  "toStr JUndef = ''undefined''"
| "toStr (JBool b) = (if b then ''true'' else ''false'')"
| "toStr (JStr s) = s"

text \<open>
  An object is the list of its own properties in insertion order. Reading a missing
  property gives \<open>undefined\<close>; assigning keeps the position of an existing key and
  appends a new one; an object spread assigns the properties of the second object in
  order.
\<close>

type_synonym obj = "(string \<times> jsval) list"

definition getProp :: "obj \<Rightarrow> string \<Rightarrow> jsval" where
  "getProp ob k = (case map_of ob k of None \<Rightarrow> JUndef | Some v \<Rightarrow> v)"

fun setProp :: "string \<Rightarrow> jsval \<Rightarrow> obj \<Rightarrow> obj" where
  "setProp k v [] = [(k, v)]"
| "setProp k v ((k', v') # ps) =
     (if k' = k then (k, v) # ps else (k', v') # setProp k v ps)"

definition spread :: "obj \<Rightarrow> obj \<Rightarrow> obj" where
  "spread a b = foldl (\<lambda>acc (k, v). setProp k v acc) a b"

fun joinStr :: "string \<Rightarrow> string list \<Rightarrow> string" where
  "joinStr sep [] = []"
| "joinStr sep [x] = x"
| "joinStr sep (x # y # ys) = x @ sep @ joinStr sep (y # ys)"

section \<open>Effects, errors and the collaborators\<close>

text \<open>
  A run is observed through the calls it makes to its collaborators (console, prompt
  library, generator library, cloud client), in order, and through the way it ends.
  \<open>ConsoleError\<close> is a message this program prints with \<open>console.error\<close>;
  \<open>InstallPathError\<close> is the error the generator library prints itself when it refuses
  an install path.
\<close>

datatype event =
    CheckInstallPath string
  | InstallPathError string
  | ConsoleError string
  | Ask string
  | CheckRequirements
  | CreateLogger
  | CloudApiFactory "string option"
  | ConfigFetch
  | LoggerLog string
  | LoggerDebug
  | LoggerError string
  | LoggerWarn string
  | PromptLogin
  | TokenServiceFactory
  | LoginAction
  | RetrieveToken
  | SpinnerStart
  | SpinnerSucceed string
  | SpinnerFail string
  | CreateProject obj
  | LocalSave string string
  | GenerateNewApp jsval obj

text \<open>
  A run ends in one of three ways: \<open>initProject\<close> runs to its end, \<open>process.exit\<close>
  is called with a code (by this program, or by the install-path check of the generator
  library), or an exception escapes (a rejected call outside any \<open>try\<close> block:
  \<open>path.resolve\<close> of a value that is not a string, the generator).
\<close>

datatype outcome = Completed | Exited nat | Crashed

text \<open>
  What a rejected call of the cloud client throws: an error without a \<open>response\<close>
  property, or one whose response has a status and a body. \<open>typeof data === "string"\<close>
  separates a text body from a missing one and from any other body.
\<close>

datatype body = NoBody | TextBody string | OtherBody

datatype js_error = PlainError | CloudError nat body

datatype completion = Normal | Return | Throw js_error

text \<open>
  Where the project-creation spinner stands when its \<open>isSpinning\<close> property is read:
  never started, started and not yet ended, or ended by \<open>succeed\<close>. What the property
  reads there is the spinner's own affair (a disabled spinner is not spinning after
  \<open>start\<close>).
\<close>

datatype spinner_state = NotStarted | Started | Succeeded

text \<open>
  The collaborators are external: their answers are the fields of an environment.
  \<open>installPathOk\<close> tells whether \<open>checkInstallPath\<close> accepts a path,
  \<open>visibleOptions\<close> is the list of (short, long) flags the command reports,
  \<open>answerDirectory\<close> and \<open>answerQuick\<close> are what the user answers when asked,
  \<open>chalk\<close> is the styling function of each style name, \<open>isSpinning\<close> is what the
  spinner's property reads in each state,
  and each call on the cloud client either throws (\<open>Inl\<close>) or returns (\<open>Inr\<close>).
  The first config fetch returns the intro text when the document has one. The
  console, the logger, the two prompts, \<open>checkRequirements\<close> and the client factory
  without token are taken to return.
\<close>

record env =
  installPathOk :: "string \<Rightarrow> bool"
  visibleOptions :: "(jsval \<times> jsval) list"
  answerDirectory :: string
  answerQuick :: bool
  generatorOk :: bool
  win32 :: bool
  nodeVersion :: "string option"
  firstConfig :: "js_error + string option"
  userChoice :: string
  tokenServiceFactory :: "js_error + unit"
  loginAction :: "js_error + bool"
  retrieveToken :: "js_error + string"
  cloudApiFactoryToken :: "js_error + unit"
  secondConfig :: "js_error + obj option"
  createProject :: "js_error + string"
  localSave :: "js_error + unit"
  isSpinning :: "spinner_state \<Rightarrow> bool"
  chalk :: "string \<Rightarrow> string \<Rightarrow> string"

section \<open>promptUser\<close>

text \<open>
  \<open>promptUser\<close> hands two questions to the prompt library, each with a \<open>when\<close>
  condition. The library asks the questions whose condition holds, in order, and returns
  an object with one property per question asked.
\<close>

definition promptQuestions :: "jsval \<Rightarrow> obj \<Rightarrow> bool \<Rightarrow> (string \<times> bool) list" where
  "promptQuestions projectName program hasDatabaseOptions =
     [(''directory'', \<not> truthy projectName),
      (''quick'', \<not> truthy (getProp program ''quickstart'') \<and> \<not> hasDatabaseOptions)]"

definition answerFor :: "env \<Rightarrow> string \<Rightarrow> jsval" where
  "answerFor e q = (if q = ''directory'' then JStr (answerDirectory e) else JBool (answerQuick e))"

definition inquirerPrompt :: "env \<Rightarrow> (string \<times> bool) list \<Rightarrow> event list \<times> obj" where
  "inquirerPrompt e qs =
     (let asked = map fst (filter snd qs)
      in (map Ask asked, map (\<lambda>q. (q, answerFor e q)) asked))"

definition promptUser :: "env \<Rightarrow> jsval \<Rightarrow> obj \<Rightarrow> bool \<Rightarrow> event list \<times> obj" where
  "promptUser e projectName program hasDatabaseOptions =
     inquirerPrompt e (promptQuestions projectName program hasDatabaseOptions)"

section \<open>parseToChalk\<close>

text \<open>
  For each supported style, in the order of the table, every match of
  \<open>{style}(.*?){/style}\<close> in the text is replaced by the style's function applied to
  the trimmed group. The matches are found from left to right and do not overlap; the
  group is the shortest one and holds no line terminator; where an opening tag has no
  closing tag on its line the text is left as it is. Characters are bytes here, so the
  line terminators and the white space are the ASCII ones.
\<close>

definition supportedStyles :: "string list" where
  "supportedStyles =
     [''magentaBright'', ''blueBright'', ''yellowBright'', ''green'', ''red'', ''bold'', ''italic'']"

definition lineTerminator :: "char \<Rightarrow> bool" where
  "lineTerminator c = (c = CHR 0x0A \<or> c = CHR 0x0D)"

definition whiteSpace :: "char \<Rightarrow> bool" where
  "whiteSpace c =
     (c = CHR 0x09 \<or> c = CHR 0x0A \<or> c = CHR 0x0B \<or> c = CHR 0x0C \<or> c = CHR 0x0D \<or> c = CHR '' '')"

definition trim :: "string \<Rightarrow> string" where
  "trim s = rev (dropWhile whiteSpace (rev (dropWhile whiteSpace s)))"

definition openTag :: "string \<Rightarrow> string" where
  "openTag color = ''{'' @ color @ ''}''"

definition closeTag :: "string \<Rightarrow> string" where
  "closeTag color = ''{/'' @ color @ ''}''"

text \<open>\<open>(.*?)\<close> followed by the closing tag: the group, and the text after the tag.\<close>

fun matchLazy :: "string \<Rightarrow> string \<Rightarrow> (string \<times> string) option" where
  "matchLazy cls [] = (if cls = [] then Some ([], []) else None)"
| "matchLazy cls (c # cs) =
     (if take (length cls) (c # cs) = cls then Some ([], drop (length cls) (c # cs))
      else if lineTerminator c then None
      else (case matchLazy cls cs of
              None \<Rightarrow> None
            | Some (inner, rest) \<Rightarrow> Some (c # inner, rest)))"

function replaceStyle :: "(string \<Rightarrow> string) \<Rightarrow> string \<Rightarrow> string \<Rightarrow> string" where
  "replaceStyle f color [] = []"
| "replaceStyle f color (c # cs) =
     (if take (length (openTag color)) (c # cs) = openTag color
      then (case matchLazy (closeTag color) (drop (length (openTag color)) (c # cs)) of
              Some (inner, rest) \<Rightarrow> f (trim inner) @ replaceStyle f color rest
            | None \<Rightarrow> c # replaceStyle f color cs)
      else c # replaceStyle f color cs)"
  by pat_completeness auto
termination
proof -
  have len: "matchLazy cls s = Some (inner, rest) \<Longrightarrow> length rest \<le> length s"
    for cls s inner rest
  proof (induction s arbitrary: inner)
    case Nil
    then show ?case by (simp split: if_splits)
  next
    case (Cons c cs)
    show ?case
    proof (cases "take (length cls) (c # cs) = cls")
      case True
      with Cons.prems show ?thesis by auto
    next
      case False
      with Cons.prems obtain i where "matchLazy cls cs = Some (i, rest)"
        by (auto split: if_splits option.splits)
      from Cons.IH [OF this] show ?thesis by simp
    qed
  qed
  have tag: "0 < length (openTag color)" for color
    by (simp add: openTag_def)
  have step: "length y < Suc (length cs)"
    if "matchLazy (closeTag color) (drop (length (openTag color)) (c # cs)) = Some (x, y)"
    for color c cs x y
  proof -
    from len [OF that]
    have "length y \<le> length (drop (length (openTag color)) (c # cs))" .
    also have "\<dots> < length (c # cs)" using tag [of color] by simp
    finally show ?thesis by simp
  qed
  show ?thesis
    by (relation "measure (\<lambda>(f, color, s). length s)") (auto dest: step)
qed

definition parseToChalk :: "env \<Rightarrow> string \<Rightarrow> string" where
  "parseToChalk e template =
     foldl (\<lambda>result color. replaceStyle (chalk e color) color result) template supportedStyles"

section \<open>handleCloudProject\<close>

definition defaultErrorMessage :: string where
  "defaultErrorMessage = ''An error occurred while trying to interact with Strapi Cloud. Use strapi deploy command once the project is generated.''"

definition forbiddenFallbackMessage :: string where
  "forbiddenFallbackMessage = ''We are sorry, but we are not able to create a Strapi Cloud project for you at the moment.''"

text \<open>\<open>process.versions?.node?.slice(1, 3) || "20"\<close>\<close>

definition nodeVersionValue :: "env \<Rightarrow> jsval" where
  "nodeVersionValue e =
     jsor (case nodeVersion e of None \<Rightarrow> JUndef | Some v \<Rightarrow> JStr (take 2 (drop 1 v))) (JStr ''20'')"

definition projectPayload :: "env \<Rightarrow> obj \<Rightarrow> jsval \<Rightarrow> obj" where
  "projectPayload e defaultProjectValues projectName =
     setProp ''name'' projectName
       (spread [(''nodeVersion'', nodeVersionValue e), (''region'', JStr ''NYC''), (''plan'', JStr ''trial'')]
          defaultProjectValues)"

text \<open>
  The body of the inner \<open>try\<close> block (token service, login, token, authenticated
  client, config, project creation, save). The result carries the calls made, the state
  of the spinner when the block is left, and how the block is left. \<open>path.resolve\<close>
  throws a plain error when the project name is not a string.
\<close>

definition cloudTry :: "env \<Rightarrow> jsval \<Rightarrow> event list \<times> spinner_state \<times> completion" where
  "cloudTry e projectName =
     (case tokenServiceFactory e of
        Inl err \<Rightarrow> ([TokenServiceFactory], NotStarted, Throw err)
      | Inr _ \<Rightarrow>
     (case loginAction e of
        Inl err \<Rightarrow> ([TokenServiceFactory, LoginAction], NotStarted, Throw err)
      | Inr loginSuccess \<Rightarrow>
     if \<not> loginSuccess then ([TokenServiceFactory, LoginAction], NotStarted, Return)
     else
     (case retrieveToken e of
        Inl err \<Rightarrow> ([TokenServiceFactory, LoginAction, LoggerDebug, RetrieveToken], NotStarted, Throw err)
      | Inr token \<Rightarrow>
     (case cloudApiFactoryToken e of
        Inl err \<Rightarrow>
          ([TokenServiceFactory, LoginAction, LoggerDebug, RetrieveToken,
            CloudApiFactory (Some token)], NotStarted, Throw err)
      | Inr _ \<Rightarrow>
     (case secondConfig e of
        Inl err \<Rightarrow>
          ([TokenServiceFactory, LoginAction, LoggerDebug, RetrieveToken,
            CloudApiFactory (Some token), LoggerDebug, ConfigFetch], NotStarted, Throw err)
      | Inr defaults \<Rightarrow>
     (let defaultProjectValues = (case defaults of None \<Rightarrow> [] | Some d \<Rightarrow> d);
          upToCreate =
            [TokenServiceFactory, LoginAction, LoggerDebug, RetrieveToken,
             CloudApiFactory (Some token), LoggerDebug, ConfigFetch, LoggerDebug, LoggerDebug,
             SpinnerStart, CreateProject (projectPayload e defaultProjectValues projectName)]
      in
     (case createProject e of
        Inl err \<Rightarrow> (upToCreate, Started, Throw err)
      | Inr project \<Rightarrow>
     (case projectName of
        JStr name \<Rightarrow>
          (case localSave e of
             Inl err \<Rightarrow>
               (upToCreate @ [SpinnerSucceed ''Project created on Strapi Cloud'', LoggerDebug,
                  LocalSave project name], Succeeded, Throw err)
           | Inr _ \<Rightarrow>
               (upToCreate @ [SpinnerSucceed ''Project created on Strapi Cloud'', LoggerDebug,
                  LocalSave project name], Succeeded, Normal))
      | _ \<Rightarrow>
          (upToCreate @ [SpinnerSucceed ''Project created on Strapi Cloud''], Succeeded,
           Throw PlainError)))))))))"

text \<open>
  The \<open>catch\<close> block: \<open>assertCloudError\<close> throws for an error without a response,
  which the inner empty \<open>catch\<close> swallows; a response with status 403 selects the
  message and returns; everything else falls through to the default message. A message
  goes to the spinner when \<open>projectCreationSpinner.isSpinning\<close> reads true and to the
  logger otherwise.
\<close>

definition forbiddenMessage :: "body \<Rightarrow> string" where
  "forbiddenMessage b = (case b of TextBody s \<Rightarrow> s | _ \<Rightarrow> forbiddenFallbackMessage)"

definition cloudCatch :: "env \<Rightarrow> spinner_state \<Rightarrow> js_error \<Rightarrow> event list" where
  "cloudCatch e spinner err =
     LoggerDebug #
     (case err of
        CloudError status b \<Rightarrow>
          if status = 403
          then [if isSpinning e spinner then SpinnerFail (forbiddenMessage b)
                else LoggerWarn (forbiddenMessage b)]
          else [if isSpinning e spinner then SpinnerFail defaultErrorMessage
                else LoggerError defaultErrorMessage]
      | PlainError \<Rightarrow>
          [if isSpinning e spinner then SpinnerFail defaultErrorMessage
           else LoggerError defaultErrorMessage])"

text \<open>
  \<open>handleCloudProject\<close> always returns to its caller. A config document without
  intro text makes the first \<open>try\<close> block throw (in \<open>parseToChalk\<close>) as a failed
  fetch does.
\<close>

definition handleCloudProject :: "env \<Rightarrow> jsval \<Rightarrow> event list" where
  "handleCloudProject e projectName =
     [CreateLogger, CloudApiFactory None, ConfigFetch] @
     (case firstConfig e of
        Inl err \<Rightarrow> [LoggerDebug, LoggerError defaultErrorMessage]
      | Inr None \<Rightarrow> [LoggerDebug, LoggerError defaultErrorMessage]
      | Inr (Some introText) \<Rightarrow>
          [LoggerLog (parseToChalk e introText), PromptLogin] @
          (if userChoice e \<noteq> ''Skip''
           then (case cloudTry e projectName of
                   (evs, spinner, Throw err) \<Rightarrow> evs @ cloudCatch e spinner err
                 | (evs, spinner, _) \<Rightarrow> evs)
           else []))"

section \<open>The command, generateApp and initProject\<close>

definition databaseOptions :: "string list" where
  "databaseOptions =
     [''dbclient'', ''dbhost'', ''dbport'', ''dbname'', ''dbusername'', ''dbpassword'',
      ''dbssl'', ''dbfile'']"

definition missingDirectoryMessage :: string where
  "missingDirectoryMessage = ''Please specify the <directory> of your project when using --quickstart''"

definition incompatibleMessage :: string where
  "incompatibleMessage =
     ''The quickstart option is incompatible with the following options: '' @
     joinStr '', '' databaseOptions"

definition invalidTemplateMessage :: "jsval \<Rightarrow> string" where
  "invalidTemplateMessage t = toStr t @ '' is not a valid template''"

definition finish :: "env \<Rightarrow> outcome" where
  "finish e = (if \<not> generatorOk e then Crashed else if win32 e then Exited 0 else Completed)"

definition generateApp :: "env \<Rightarrow> jsval \<Rightarrow> obj \<Rightarrow> event list \<times> outcome" where
  "generateApp e projectName options =
     (if \<not> truthy projectName then ([ConsoleError missingDirectoryMessage], Exited 1)
      else
        ((if \<not> truthy (getProp options ''skipCloud'')
          then CheckRequirements # handleCloudProject e projectName else []) @
         [GenerateNewApp projectName options],
         finish e))"

text \<open>
  \<open>checkInstallPath(path.resolve(p))\<close>: the calls made, and how the run ends there if
  it does. The check of the generator library prints its own error and calls
  \<open>process.exit(1)\<close> for a path it refuses; \<open>path.resolve\<close> throws on a value that is
  not a string.
\<close>

definition checkInstallPath :: "env \<Rightarrow> jsval \<Rightarrow> event list \<times> outcome option" where
  "checkInstallPath e p =
     (case p of
        JStr s \<Rightarrow>
          if installPathOk e s then ([CheckInstallPath s], None)
          else ([CheckInstallPath s, InstallPathError s], Some (Exited 1))
      | _ \<Rightarrow> ([], Some Crashed))"

definition programFlags :: "env \<Rightarrow> jsval list" where
  "programFlags e =
     filter truthy (foldl (\<lambda>acc (short, long). acc @ [short, long]) [] (visibleOptions e))"

definition hasDatabaseOptions :: "obj \<Rightarrow> bool" where
  "hasDatabaseOptions programArgs = list_ex (\<lambda>opt. truthy (getProp programArgs opt)) databaseOptions"

definition invalidTemplate :: "env \<Rightarrow> obj \<Rightarrow> bool" where
  "invalidTemplate e programArgs =
     (truthy (getProp programArgs ''template'') \<and>
      getProp programArgs ''template'' \<in> set (programFlags e))"

text \<open>
  The interactive part of \<open>initProject\<close>: prompt, second install-path check, merge
  of the two overrides into a copy of the options, generation.
\<close>

definition promptAndGenerate :: "env \<Rightarrow> jsval \<Rightarrow> obj \<Rightarrow> bool \<Rightarrow> event list \<times> outcome" where
  "promptAndGenerate e projectName programArgs hasDbOptions =
     (let (asked, prompt) = promptUser e projectName programArgs hasDbOptions;
          directory = jsor (getProp prompt ''directory'') projectName;
          (checked, stopped) = checkInstallPath e directory
      in case stopped of
           Some out \<Rightarrow> (asked @ checked, out)
         | None \<Rightarrow>
           (let options =
                  [(''template'', getProp programArgs ''template''),
                   (''quickstart'',
                    jsor (getProp prompt ''quick'') (getProp programArgs ''quickstart''))];
                generateStrapiAppOptions = spread programArgs options;
                (evs, out) = generateApp e directory generateStrapiAppOptions
            in (asked @ checked @ evs, out)))"

text \<open>The part of \<open>initProject\<close> after the first install-path check.\<close>

definition initChecked :: "env \<Rightarrow> jsval \<Rightarrow> obj \<Rightarrow> event list \<times> outcome" where
  "initChecked e projectName programArgs =
     (if invalidTemplate e programArgs
      then ([ConsoleError (invalidTemplateMessage (getProp programArgs ''template''))], Exited 1)
      else if truthy (getProp programArgs ''quickstart'') \<and> hasDatabaseOptions programArgs
      then ([ConsoleError incompatibleMessage], Exited 1)
      else
        (let programArgs' =
               (if hasDatabaseOptions programArgs
                then setProp ''quickstart'' (JBool False) programArgs else programArgs)
         in if truthy (getProp programArgs' ''quickstart'')
            then generateApp e projectName programArgs'
            else promptAndGenerate e projectName programArgs' (hasDatabaseOptions programArgs)))"

definition initProject :: "env \<Rightarrow> jsval \<Rightarrow> obj \<Rightarrow> event list \<times> outcome" where
  "initProject e projectName programArgs =
     (if truthy projectName
      then (let (checked, stopped) = checkInstallPath e projectName
            in case stopped of
                 Some out \<Rightarrow> (checked, out)
               | None \<Rightarrow>
                   (let (evs, out) = initChecked e projectName programArgs
                    in (checked @ evs, out)))
      else initChecked e projectName programArgs)"

section \<open>Observations on a run\<close>

text \<open>
  The directory argument as the command hands it over: \<open>undefined\<close> when none was
  given, the string otherwise. And whether an object has a property of a given name,
  that is, whether the option was given at all, whatever its value.
\<close>

definition directoryArgument :: "string option \<Rightarrow> jsval" where
  "directoryArgument d = (case d of None \<Rightarrow> JUndef | Some s \<Rightarrow> JStr s)"

definition hasProp :: "obj \<Rightarrow> string \<Rightarrow> bool" where
  "hasProp ob k = (k \<in> set (map fst ob))"

text \<open>
  The calls of the external generator, the messages this program prints on the console
  and the questions put to the user, each in the order of the run.
\<close>

definition generatorCalls :: "event list \<Rightarrow> (jsval \<times> obj) list" where
  "generatorCalls evs =
     concat (map (\<lambda>ev. case ev of GenerateNewApp n opts \<Rightarrow> [(n, opts)] | _ \<Rightarrow> []) evs)"

definition consoleErrors :: "event list \<Rightarrow> string list" where
  "consoleErrors evs = concat (map (\<lambda>ev. case ev of ConsoleError m \<Rightarrow> [m] | _ \<Rightarrow> []) evs)"

definition askedQuestions :: "event list \<Rightarrow> string list" where
  "askedQuestions evs = concat (map (\<lambda>ev. case ev of Ask q \<Rightarrow> [q] | _ \<Rightarrow> []) evs)"

text \<open>The \<open>quickstart\<close> property of the options of each generator call.\<close>

definition passedQuickstart :: "event list \<Rightarrow> jsval list" where
  "passedQuickstart evs = map (\<lambda>(n, opts). getProp opts ''quickstart'') (generatorCalls evs)"

text \<open>
  The calls that only \<open>handleCloudProject\<close> makes: logger, cloud client, login prompt,
  spinner and local save.
\<close>

fun isCloudEvent :: "event \<Rightarrow> bool" where
  "isCloudEvent (CheckInstallPath p) = False"
| "isCloudEvent (InstallPathError p) = False"
| "isCloudEvent (ConsoleError m) = False"
| "isCloudEvent (Ask q) = False"
| "isCloudEvent CheckRequirements = False"
| "isCloudEvent (GenerateNewApp n opts) = False"
| "isCloudEvent _ = True"

text \<open>
  The install-path check at the start of \<open>initProject\<close> (made only for a truthy
  directory argument) lets the run go on; and the calls that check makes.
\<close>

definition firstCheckPasses :: "env \<Rightarrow> jsval \<Rightarrow> bool" where
  "firstCheckPasses e projectName =
     (truthy projectName \<longrightarrow> snd (checkInstallPath e projectName) = None)"

definition firstCheckEvents :: "env \<Rightarrow> jsval \<Rightarrow> event list" where
  "firstCheckEvents e projectName =
     (if truthy projectName then fst (checkInstallPath e projectName) else [])"


section \<open>Sample inputs\<close>

text \<open>
  The flags of the command as it is declared: the version option, the sixteen options of
  the declaration in order, and the help option. Only \<open>--ts, --typescript\<close>, the version
  and the help option have a short form.
\<close>

definition commandOptions :: "(jsval \<times> jsval) list" where
  "commandOptions =
     [(JStr ''-V'', JStr ''--version''),
      (JUndef, JStr ''--no-run''),
      (JUndef, JStr ''--use-npm''),
      (JUndef, JStr ''--debug''),
      (JUndef, JStr ''--quickstart''),
      (JUndef, JStr ''--skip-cloud''),
      (JUndef, JStr ''--dbclient''),
      (JUndef, JStr ''--dbhost''),
      (JUndef, JStr ''--dbport''),
      (JUndef, JStr ''--dbname''),
      (JUndef, JStr ''--dbusername''),
      (JUndef, JStr ''--dbpassword''),
      (JUndef, JStr ''--dbssl''),
      (JUndef, JStr ''--dbfile''),
      (JUndef, JStr ''--dbforce''),
      (JUndef, JStr ''--template''),
      (JStr ''--ts'', JStr ''--typescript''),
      (JStr ''-h'', JStr ''--help'')]"

text \<open>
  An environment in which every collaborator succeeds: any install path is usable, the
  user keeps the default directory name, picks the custom installation and logs in; the
  spinner spins between \<open>start\<close> and its end, and the styles leave the text as it is.
  The variants differ in one answer each: a directory that is not usable, a user who
  picks the quickstart installation, a project creation refused with status 403 (with a
  text body; with a body that is not a string; with a text body and a disabled spinner),
  and a first config fetch that fails.
\<close>

definition quietEnv :: env where
  "quietEnv =
     \<lparr>installPathOk = (\<lambda>p. True), visibleOptions = commandOptions,
      answerDirectory = ''my-strapi-project'', answerQuick = False,
      generatorOk = True, win32 = False, nodeVersion = Some ''20.11.0'',
      firstConfig = Inr (Some ''{bold} Welcome {/bold} to the cloud''), userChoice = ''Login/Sign up'',
      tokenServiceFactory = Inr (), loginAction = Inr True, retrieveToken = Inr ''token'',
      cloudApiFactoryToken = Inr (), secondConfig = Inr None,
      createProject = Inr ''project'', localSave = Inr (),
      isSpinning = (\<lambda>st. st = Started), chalk = (\<lambda>style text. text)\<rparr>"

definition occupiedEnv :: env where
  "occupiedEnv = quietEnv\<lparr>installPathOk := (\<lambda>p. False)\<rparr>"

definition quickAnswerEnv :: env where
  "quickAnswerEnv = quietEnv\<lparr>answerQuick := True\<rparr>"

definition forbiddenEnv :: env where
  "forbiddenEnv =
     quietEnv\<lparr>createProject := Inl (CloudError 403 (TextBody ''Trial limit reached''))\<rparr>"

definition objectBodyEnv :: env where
  "objectBodyEnv = quietEnv\<lparr>createProject := Inl (CloudError 403 OtherBody)\<rparr>"

definition disabledSpinnerEnv :: env where
  "disabledSpinnerEnv = forbiddenEnv\<lparr>isSpinning := (\<lambda>st. False)\<rparr>"

definition offlineEnv :: env where
  "offlineEnv = quietEnv\<lparr>firstConfig := Inl PlainError\<rparr>"

text \<open>
  Options objects as the command hands them to \<open>initProject\<close>: one property per option
  given, and \<open>run\<close>, which the negatable option \<open>--no-run\<close> makes true by default.
  In order: no flag; \<open>--skip-cloud\<close>; \<open>--quickstart\<close>; \<open>--quickstart --skip-cloud\<close>;
  \<open>--quickstart --dbname x\<close>; the same with \<open>--template --debug\<close>;
  \<open>--quickstart --template --debug\<close>; \<open>--template --debug\<close>; \<open>--template blog\<close>;
  \<open>--dbclient postgres --dbhost localhost\<close>; \<open>--quickstart --skip-cloud\<close> with an
  empty \<open>--dbname\<close> value; \<open>--skip-cloud\<close> with an empty \<open>--dbname\<close> value.
\<close>

definition noFlagArgs :: obj where
  "noFlagArgs = [(''run'', JBool True)]"

definition skipCloudArgs :: obj where
  "skipCloudArgs = [(''run'', JBool True), (''skipCloud'', JBool True)]"

definition quickstartArgs :: obj where
  "quickstartArgs = [(''run'', JBool True), (''quickstart'', JBool True)]"

definition myappArgs :: obj where
  "myappArgs = [(''run'', JBool True), (''quickstart'', JBool True), (''skipCloud'', JBool True)]"

definition conflictArgs :: obj where
  "conflictArgs = [(''run'', JBool True), (''quickstart'', JBool True), (''dbname'', JStr ''x'')]"

definition conflictTemplateArgs :: obj where
  "conflictTemplateArgs =
     [(''run'', JBool True), (''quickstart'', JBool True), (''dbname'', JStr ''x''),
      (''template'', JStr ''--debug'')]"

definition quickTemplateArgs :: obj where
  "quickTemplateArgs =
     [(''run'', JBool True), (''quickstart'', JBool True), (''template'', JStr ''--debug'')]"




definition databaseArgs :: obj where
  "databaseArgs =
     [(''run'', JBool True), (''dbclient'', JStr ''postgres''), (''dbhost'', JStr ''localhost'')]"

definition emptyDbQuickArgs :: obj where
  "emptyDbQuickArgs =
     [(''run'', JBool True), (''quickstart'', JBool True), (''skipCloud'', JBool True),
      (''dbname'', JStr '''')]"

definition emptyDbArgs :: obj where
  "emptyDbArgs = [(''run'', JBool True), (''skipCloud'', JBool True), (''dbname'', JStr '''')]"

text \<open>The record \<open>{directory: "myapp", quickstart: true, skipCloud: true}\<close>.\<close>

definition claimedMyappOptions :: obj where
  "claimedMyappOptions =
     [(''directory'', JStr ''myapp''), (''quickstart'', JBool True), (''skipCloud'', JBool True)]"

section \<open>Properties of objects and of the parts of a run\<close>

lemma getProp_setProp: "getProp (setProp k v ob) k' = (if k' = k then v else getProp ob k')"
  by (induction ob) (auto simp: getProp_def)

lemma spread_two: "spread a [(k1, v1), (k2, v2)] = setProp k2 v2 (setProp k1 v1 a)"
  by (simp add: spread_def)

lemma generatorCalls_Nil: "generatorCalls [] = []"
  by (simp add: generatorCalls_def)

lemma generatorCalls_append: "generatorCalls (xs @ ys) = generatorCalls xs @ generatorCalls ys"
  by (simp add: generatorCalls_def)

lemma askedQuestions_append: "askedQuestions (xs @ ys) = askedQuestions xs @ askedQuestions ys"
  by (simp add: askedQuestions_def)

subsection \<open>The cloud part makes cloud calls only\<close>

lemma cloudTry_cloud: "\<forall>ev \<in> set (fst (cloudTry e n)). isCloudEvent ev"
  by (auto simp: cloudTry_def Let_def split: sum.splits jsval.splits)

lemma cloudCatch_cloud: "\<forall>ev \<in> set (cloudCatch e sp err). isCloudEvent ev"
  by (simp add: cloudCatch_def split: js_error.splits)

lemma handleCloudProject_cloud: "\<forall>ev \<in> set (handleCloudProject e n). isCloudEvent ev"
proof -
  obtain evs sp c where t: "cloudTry e n = (evs, sp, c)"
    by (cases "cloudTry e n") auto
  have "\<forall>ev \<in> set evs. isCloudEvent ev"
    using cloudTry_cloud [of e n] t by simp
  then show ?thesis
    using cloudCatch_cloud
    by (cases c) (auto simp: handleCloudProject_def t split: sum.splits option.splits)
qed

lemma generatorCalls_cloud: "\<forall>ev \<in> set evs. isCloudEvent ev \<Longrightarrow> generatorCalls evs = []"
  by (induction evs) (auto simp: generatorCalls_def split: event.splits)

lemma askedQuestions_cloud: "\<forall>ev \<in> set evs. isCloudEvent ev \<Longrightarrow> askedQuestions evs = []"
  by (induction evs) (auto simp: askedQuestions_def split: event.splits)

subsection \<open>Install-path check and prompt\<close>

lemma checkInstallPath_calls: "generatorCalls (fst (checkInstallPath e p)) = []"
  by (simp add: checkInstallPath_def generatorCalls_def split: jsval.splits)

lemma checkInstallPath_asked: "askedQuestions (fst (checkInstallPath e p)) = []"
  by (simp add: checkInstallPath_def askedQuestions_def split: jsval.splits)

lemma checkInstallPath_no_cloud: "filter isCloudEvent (fst (checkInstallPath e p)) = []"
  by (simp add: checkInstallPath_def split: jsval.splits)

lemma checkInstallPath_argument:
  "snd (checkInstallPath e (directoryArgument d)) = None \<or>
   truthy (directoryArgument d) \<and> snd (checkInstallPath e (directoryArgument d)) = Some (Exited 1) \<or>
   \<not> truthy (directoryArgument d)"
  by (simp add: checkInstallPath_def directoryArgument_def split: option.splits)


lemma firstCheckEvents_calls: "generatorCalls (firstCheckEvents e p) = []"
  by (simp add: firstCheckEvents_def checkInstallPath_calls generatorCalls_Nil)

lemma promptUser_calls: "generatorCalls (fst (promptUser e p a h)) = []"
  by (simp add: promptUser_def inquirerPrompt_def promptQuestions_def generatorCalls_def)

lemma promptUser_no_cloud: "filter isCloudEvent (fst (promptUser e p a h)) = []"
  by (simp add: promptUser_def inquirerPrompt_def promptQuestions_def)

lemma promptUser_asked:
  "askedQuestions (fst (promptUser e p a h)) =
     (if \<not> truthy p then [''directory''] else []) @
     (if \<not> truthy (getProp a ''quickstart'') \<and> \<not> h then [''quick''] else [])"
  by (simp add: promptUser_def inquirerPrompt_def promptQuestions_def askedQuestions_def)


lemma promptUser_quick:
  "getProp (snd (promptUser e p a h)) ''quick'' =
     (if \<not> truthy (getProp a ''quickstart'') \<and> \<not> h then JBool (answerQuick e) else JUndef)"
  by (simp add: promptUser_def inquirerPrompt_def promptQuestions_def getProp_def answerFor_def)

subsection \<open>generateApp\<close>

lemma generateApp_calls:
  "generatorCalls (fst (generateApp e n opts)) = (if truthy n then [(n, opts)] else [])"
proof (cases "truthy n")
  case False
  then show ?thesis by (simp add: generateApp_def generatorCalls_def)
next
  case True
  have c: "generatorCalls (handleCloudProject e n) = []"
    using handleCloudProject_cloud by (rule generatorCalls_cloud)
  have g: "generatorCalls [GenerateNewApp n opts] = [(n, opts)]"
    by (simp add: generatorCalls_def)
  have r: "generatorCalls [CheckRequirements] = []"
    by (simp add: generatorCalls_def)
  have "generatorCalls (CheckRequirements # handleCloudProject e n) = []"
    using generatorCalls_append [of "[CheckRequirements]" "handleCloudProject e n"] c r by simp
  with True g show ?thesis
    by (simp add: generateApp_def generatorCalls_append generatorCalls_Nil)
qed

lemma generateApp_asked: "askedQuestions (fst (generateApp e n opts)) = []"
proof -
  have c: "askedQuestions (handleCloudProject e n) = []"
    using handleCloudProject_cloud by (rule askedQuestions_cloud)
  have "askedQuestions (CheckRequirements # handleCloudProject e n) = []"
    using askedQuestions_append [of "[CheckRequirements]" "handleCloudProject e n"] c
    by (simp add: askedQuestions_def)
  moreover have "askedQuestions [GenerateNewApp n opts] = []" "askedQuestions [] = []"
    "askedQuestions [ConsoleError missingDirectoryMessage] = []"
    by (simp_all add: askedQuestions_def)
  ultimately show ?thesis
    by (simp add: generateApp_def askedQuestions_append)
qed





lemma generateApp_skip:
  "truthy (getProp opts ''skipCloud'') \<Longrightarrow> filter isCloudEvent (fst (generateApp e n opts)) = []"
  by (simp add: generateApp_def)

subsection \<open>The interactive part\<close>

lemma promptAndGenerate_skip:
  assumes "truthy (getProp programArgs ''skipCloud'')"
  shows "filter isCloudEvent (fst (promptAndGenerate e projectName programArgs h)) = []"
proof -
  have "truthy (getProp (spread programArgs [(''template'', t), (''quickstart'', q)]) ''skipCloud'')" for t q
    using assms by (simp add: spread_two getProp_setProp)
  then show ?thesis
    by (simp add: promptAndGenerate_def Let_def case_prod_beta promptUser_no_cloud
        checkInstallPath_no_cloud generateApp_skip split: option.splits)
qed


lemma promptAndGenerate_asked:
  "askedQuestions (fst (promptAndGenerate e p a h)) = askedQuestions (fst (promptUser e p a h))"
  by (simp add: promptAndGenerate_def Let_def case_prod_beta askedQuestions_append
      checkInstallPath_asked generateApp_asked split: option.splits)

lemma promptAndGenerate_calls:
  assumes "(n, opts) \<in> set (generatorCalls (fst (promptAndGenerate e p a h)))"
  shows "opts = setProp ''quickstart''
                  (jsor (getProp (snd (promptUser e p a h)) ''quick'') (getProp a ''quickstart''))
                  (setProp ''template'' (getProp a ''template'') a)"
  using assms
  by (simp add: promptAndGenerate_def Let_def case_prod_beta generatorCalls_append
      promptUser_calls checkInstallPath_calls generateApp_calls generatorCalls_Nil spread_two
      split: if_splits option.splits)

subsection \<open>initProject\<close>

lemma programFlags_truthy: "v \<in> set (programFlags e) \<Longrightarrow> truthy v"
  by (simp add: programFlags_def)

lemma invalidTemplate_iff:
  "invalidTemplate e programArgs = (getProp programArgs ''template'' \<in> set (programFlags e))"
  using programFlags_truthy by (auto simp: invalidTemplate_def)

lemma incompatibleMessage_text:
  "incompatibleMessage = ''The quickstart option is incompatible with the following options: dbclient, dbhost, dbport, dbname, dbusername, dbpassword, dbssl, dbfile''"
  by (simp add: incompatibleMessage_def databaseOptions_def)

lemma initProject_checked:
  assumes "firstCheckPasses e projectName"
  shows "initProject e projectName programArgs =
     (firstCheckEvents e projectName @ fst (initChecked e projectName programArgs),
      snd (initChecked e projectName programArgs))"
  using assms
  by (simp add: initProject_def firstCheckPasses_def firstCheckEvents_def case_prod_beta)

lemma initProject_unchecked:
  assumes "truthy projectName" and "snd (checkInstallPath e projectName) = Some out"
  shows "initProject e projectName programArgs = (fst (checkInstallPath e projectName), out)"
  using assms
  by (simp add: initProject_def case_prod_beta)

lemma initProject_argument_unchecked:
  assumes "\<not> firstCheckPasses e (directoryArgument d)"
  shows "initProject e (directoryArgument d) programArgs =
           (fst (checkInstallPath e (directoryArgument d)), Exited 1)"
proof -
  from assms have t: "truthy (directoryArgument d)"
    and "snd (checkInstallPath e (directoryArgument d)) \<noteq> None"
    by (simp_all add: firstCheckPasses_def)
  with checkInstallPath_argument [of e d]
  have "snd (checkInstallPath e (directoryArgument d)) = Some (Exited 1)" by auto
  from initProject_unchecked [OF t this] show ?thesis .
qed

lemma initProject_calls:
  "generatorCalls (fst (initProject e p a)) =
     (if firstCheckPasses e p then generatorCalls (fst (initChecked e p a)) else [])"
proof (cases "firstCheckPasses e p")
  case True
  then show ?thesis
    by (simp add: initProject_checked generatorCalls_append firstCheckEvents_calls)
next
  case False
  then obtain out where "truthy p" and "snd (checkInstallPath e p) = Some out"
    by (auto simp: firstCheckPasses_def)
  from initProject_unchecked [OF this] False show ?thesis
    by (simp add: checkInstallPath_calls)
qed


lemma initChecked_skip:
  assumes "truthy (getProp programArgs ''skipCloud'')"
  shows "filter isCloudEvent (fst (initChecked e projectName programArgs)) = []"
proof -
  have "truthy (getProp (setProp ''quickstart'' (JBool False) programArgs) ''skipCloud'')"
    using assms by (simp add: getProp_setProp)
  with assms show ?thesis
    by (simp add: initChecked_def Let_def generateApp_skip promptAndGenerate_skip)
qed

lemma initChecked_conflict:
  assumes "truthy (getProp a ''quickstart'')" and "hasDatabaseOptions a"
  shows "snd (initChecked e p a) = Exited 1" and "generatorCalls (fst (initChecked e p a)) = []"
  using assms by (simp_all add: initChecked_def generatorCalls_def)

lemma initChecked_interactive:
  assumes "\<not> truthy (getProp a ''quickstart'')"
    and "(n, opts) \<in> set (generatorCalls (fst (initChecked e p a)))"
  shows "\<not> hasDatabaseOptions a \<and>
           (n, opts) \<in> set (generatorCalls (fst (promptAndGenerate e p a False))) \<or>
         hasDatabaseOptions a \<and>
           (n, opts) \<in> set (generatorCalls (fst (promptAndGenerate e p
              (setProp ''quickstart'' (JBool False) a) True)))"
  using assms
  by (auto simp: initChecked_def Let_def generatorCalls_def getProp_setProp split: if_splits)


subsection \<open>Runs that exit with code 1\<close>






section \<open>Validation of the options\<close>

text \<open>
  C1, as the code has it. When \<open>--quickstart\<close> is set and at least one of the eight
  database options has a truthy (non-empty) value, the run exits with code 1 and never
  calls the generator, whatever the directory argument is. When in addition the
  install-path check of the directory argument lets the run go on and the template value
  is not one of the flags of the command, the only message printed is the
  incompatibility message, which lists all eight database option names, whichever of
  them were given.
\<close>

theorem quickstart_with_database_options_exits:
  assumes "truthy (getProp programArgs ''quickstart'')"
    and "hasDatabaseOptions programArgs"
  shows "snd (initProject e (directoryArgument d) programArgs) = Exited 1 \<and>
         generatorCalls (fst (initProject e (directoryArgument d) programArgs)) = [] \<and>
         (firstCheckPasses e (directoryArgument d) \<and>
          getProp programArgs ''template'' \<notin> set (programFlags e) \<longrightarrow>
            initProject e (directoryArgument d) programArgs =
              (firstCheckEvents e (directoryArgument d) @
               [ConsoleError ''The quickstart option is incompatible with the following options: dbclient, dbhost, dbport, dbname, dbusername, dbpassword, dbssl, dbfile''],
               Exited 1))"
proof (intro conjI impI)
  show "snd (initProject e (directoryArgument d) programArgs) = Exited 1"
  proof (cases "firstCheckPasses e (directoryArgument d)")
    case True
    with assms show ?thesis by (simp add: initProject_checked initChecked_conflict)
  next
    case False
    then show ?thesis by (simp add: initProject_argument_unchecked)
  qed
  show "generatorCalls (fst (initProject e (directoryArgument d) programArgs)) = []"
    using assms by (simp add: initProject_calls initChecked_conflict)
next
  assume a: "firstCheckPasses e (directoryArgument d) \<and>
             getProp programArgs ''template'' \<notin> set (programFlags e)"
  then have "\<not> invalidTemplate e programArgs" by (simp add: invalidTemplate_iff)
  with assms a show "initProject e (directoryArgument d) programArgs =
              (firstCheckEvents e (directoryArgument d) @
               [ConsoleError ''The quickstart option is incompatible with the following options: dbclient, dbhost, dbport, dbname, dbusername, dbpassword, dbssl, dbfile''],
               Exited 1)"
    by (simp add: initProject_checked initChecked_def incompatibleMessage_text)
qed

theorem quickstart_with_database_options_exits_witness:
  "truthy (getProp conflictArgs ''quickstart'') \<and>
   hasDatabaseOptions conflictArgs \<and>
   firstCheckPasses quietEnv (directoryArgument (Some ''myapp'')) \<and>
   getProp conflictArgs ''template'' \<notin> set (programFlags quietEnv) \<and>
   generatorCalls (fst (initProject quietEnv (directoryArgument (Some ''myapp'')) conflictArgs)) = [] \<and>
   initProject quietEnv (directoryArgument (Some ''myapp'')) conflictArgs =
     ([CheckInstallPath ''myapp'',
       ConsoleError ''The quickstart option is incompatible with the following options: dbclient, dbhost, dbport, dbname, dbusername, dbpassword, dbssl, dbfile''],
      Exited 1) \<and>
   snd (initProject occupiedEnv (directoryArgument (Some ''myapp'')) conflictArgs) = Exited 1"
proof -
  have h1: "firstCheckPasses quietEnv (directoryArgument (Some ''myapp''))" by code_simp
  have h2: "truthy (getProp conflictArgs ''quickstart'')" by code_simp
  have h3: "hasDatabaseOptions conflictArgs" by code_simp
  have h4: "getProp conflictArgs ''template'' \<notin> set (programFlags quietEnv)" by code_simp
  have ev: "firstCheckEvents quietEnv (directoryArgument (Some ''myapp'')) = [CheckInstallPath ''myapp'']"
    by code_simp
  from quickstart_with_database_options_exits [OF h2 h3, of quietEnv "Some ''myapp''"]
    quickstart_with_database_options_exits [OF h2 h3, of occupiedEnv "Some ''myapp''"]
    h1 h2 h3 h4 ev
  show ?thesis by (simp add: generatorCalls_def)
qed

text \<open>
  C1 as stated fails in three ways. For \<open>--quickstart --dbname x --template --debug\<close>
  without a directory the run exits with code 1, but the message printed is the one of
  the template check, which names no database option. For
  \<open>myapp --quickstart --skip-cloud\<close> with an empty \<open>--dbname\<close> value the database flag
  is present, yet the run does not exit: the generator is called. For
  \<open>myapp --quickstart --dbname x\<close> with a directory \<open>myapp\<close> that is not usable, the
  run exits with code 1 on the error of the install-path check and prints no message
  about database options.
\<close>

theorem quickstart_database_template_counterexample:
  "truthy (getProp conflictTemplateArgs ''quickstart'') \<and>
   hasProp conflictTemplateArgs ''dbname'' \<and>
   initProject quietEnv JUndef conflictTemplateArgs =
     ([ConsoleError ''--debug is not a valid template''], Exited 1) \<and>
   truthy (getProp emptyDbQuickArgs ''quickstart'') \<and>
   hasProp emptyDbQuickArgs ''dbname'' \<and>
   initProject quietEnv (JStr ''myapp'') emptyDbQuickArgs =
     ([CheckInstallPath ''myapp'', GenerateNewApp (JStr ''myapp'') emptyDbQuickArgs], Completed) \<and>
   truthy (getProp conflictArgs ''quickstart'') \<and>
   hasProp conflictArgs ''dbname'' \<and>
   initProject occupiedEnv (JStr ''myapp'') conflictArgs =
     ([CheckInstallPath ''myapp'', InstallPathError ''myapp''], Exited 1)"
  by code_simp

text \<open>
  C6, as the code has it. With \<open>--quickstart\<close> set and no directory argument (or an
  empty one) every run prints exactly one message, exits with code 1 and never calls the
  generator. The message is the one of the template check when the template value is
  one of the flags of the command; else the incompatibility message when a database
  option has a truthy (non-empty) value; else the message that asks for the directory.
\<close>

theorem quickstart_without_directory_exits:
  assumes "\<not> truthy projectName"
    and "truthy (getProp programArgs ''quickstart'')"
  shows "initProject e projectName programArgs =
           ([ConsoleError
               (if getProp programArgs ''template'' \<in> set (programFlags e)
                then toStr (getProp programArgs ''template'') @ '' is not a valid template''
                else if hasDatabaseOptions programArgs
                then ''The quickstart option is incompatible with the following options: dbclient, dbhost, dbport, dbname, dbusername, dbpassword, dbssl, dbfile''
                else ''Please specify the <directory> of your project when using --quickstart'')],
            Exited 1) \<and>
         generatorCalls (fst (initProject e projectName programArgs)) = []"
  using assms
  by (simp add: initProject_def initChecked_def generateApp_def missingDirectoryMessage_def
      generatorCalls_def invalidTemplate_iff invalidTemplateMessage_def incompatibleMessage_text)

theorem quickstart_without_directory_exits_witness:
  "\<not> truthy JUndef \<and> truthy (getProp quickstartArgs ''quickstart'') \<and>
   initProject quietEnv JUndef quickstartArgs =
     ([ConsoleError ''Please specify the <directory> of your project when using --quickstart''],
      Exited 1) \<and>
   generatorCalls (fst (initProject quietEnv JUndef quickstartArgs)) = [] \<and>
   truthy (getProp conflictArgs ''quickstart'') \<and>
   initProject quietEnv JUndef conflictArgs =
     ([ConsoleError ''The quickstart option is incompatible with the following options: dbclient, dbhost, dbport, dbname, dbusername, dbpassword, dbssl, dbfile''],
      Exited 1) \<and>
   truthy (getProp quickTemplateArgs ''quickstart'') \<and>
   initProject quietEnv JUndef quickTemplateArgs =
     ([ConsoleError ''--debug is not a valid template''], Exited 1)"
proof -
  have h1: "\<not> truthy JUndef" by simp
  have a2: "truthy (getProp quickstartArgs ''quickstart'')" by code_simp
  have a3: "\<not> hasDatabaseOptions quickstartArgs" by code_simp
  have a4: "getProp quickstartArgs ''template'' \<notin> set (programFlags quietEnv)" by code_simp
  have b2: "truthy (getProp conflictArgs ''quickstart'')" by code_simp
  have b3: "hasDatabaseOptions conflictArgs" by code_simp
  have b4: "getProp conflictArgs ''template'' \<notin> set (programFlags quietEnv)" by code_simp
  have c2: "truthy (getProp quickTemplateArgs ''quickstart'')" by code_simp
  have c4: "getProp quickTemplateArgs ''template'' \<in> set (programFlags quietEnv)" by code_simp
  have c5: "toStr (getProp quickTemplateArgs ''template'') = ''--debug''" by code_simp
  from quickstart_without_directory_exits [OF h1 a2, of quietEnv]
    quickstart_without_directory_exits [OF h1 b2, of quietEnv]
    quickstart_without_directory_exits [OF h1 c2, of quietEnv]
    h1 a2 a3 a4 b2 b3 b4 c2 c4 c5
  show ?thesis by (simp add: generatorCalls_def)
qed

text \<open>
  C6 as stated fails for \<open>--quickstart --dbname x\<close> without a directory: the run exits
  with code 1, but it prints the incompatibility message and not the one that asks for
  the directory. Likewise \<open>--quickstart --template --debug\<close> without a directory prints
  the message of the template check.
\<close>

theorem quickstart_without_directory_counterexample:
  "\<not> truthy JUndef \<and> truthy (getProp conflictArgs ''quickstart'') \<and>
   initProject quietEnv JUndef conflictArgs =
     ([ConsoleError ''The quickstart option is incompatible with the following options: dbclient, dbhost, dbport, dbname, dbusername, dbpassword, dbssl, dbfile''],
      Exited 1) \<and>
   missingDirectoryMessage \<notin> set (consoleErrors (fst (initProject quietEnv JUndef conflictArgs))) \<and>
   truthy (getProp quickTemplateArgs ''quickstart'') \<and>
   initProject quietEnv JUndef quickTemplateArgs =
     ([ConsoleError ''--debug is not a valid template''], Exited 1)"
  by code_simp




section \<open>The options handed to the generator\<close>

text \<open>
  C2, as the code has it. When at least one database option has a truthy (non-empty)
  value and the generator is called, \<open>--quickstart\<close> was not set (a run with both exits
  at validation) and the options object the generator receives has \<open>quickstart\<close>
  \<open>false\<close>.
\<close>

theorem database_options_force_quickstart_false:
  assumes "hasDatabaseOptions programArgs"
    and "(n, opts) \<in> set (generatorCalls (fst (initProject e projectName programArgs)))"
  shows "getProp opts ''quickstart'' = JBool False \<and>
         \<not> truthy (getProp programArgs ''quickstart'')"
proof -
  let ?a = "setProp ''quickstart'' (JBool False) programArgs"
  from assms(2)
  have c: "(n, opts) \<in> set (generatorCalls (fst (initChecked e projectName programArgs)))"
    by (simp add: initProject_calls split: if_splits)
  have q: "\<not> truthy (getProp programArgs ''quickstart'')"
  proof
    assume "truthy (getProp programArgs ''quickstart'')"
    with assms(1) have "generatorCalls (fst (initChecked e projectName programArgs)) = []"
      by (simp add: initChecked_conflict)
    with c show False by simp
  qed
  from initChecked_interactive [OF q c] assms(1)
  have "(n, opts) \<in> set (generatorCalls (fst (promptAndGenerate e projectName ?a True)))"
    by simp
  from promptAndGenerate_calls [OF this] q show ?thesis
    by (simp add: getProp_setProp promptUser_quick jsor_def)
qed

theorem database_options_force_quickstart_false_witness:
  "hasDatabaseOptions databaseArgs \<and>
   generatorCalls (fst (initProject quietEnv (JStr ''myapp'') databaseArgs)) =
     [(JStr ''myapp'',
       [(''run'', JBool True), (''dbclient'', JStr ''postgres''), (''dbhost'', JStr ''localhost''),
        (''quickstart'', JBool False), (''template'', JUndef)])] \<and>
   getProp [(''run'', JBool True), (''dbclient'', JStr ''postgres''), (''dbhost'', JStr ''localhost''),
        (''quickstart'', JBool False), (''template'', JUndef)] ''quickstart'' = JBool False \<and>
   \<not> truthy (getProp databaseArgs ''quickstart'')"
proof -
  have h: "hasDatabaseOptions databaseArgs" by code_simp
  have c: "generatorCalls (fst (initProject quietEnv (JStr ''myapp'') databaseArgs)) =
     [(JStr ''myapp'',
       [(''run'', JBool True), (''dbclient'', JStr ''postgres''), (''dbhost'', JStr ''localhost''),
        (''quickstart'', JBool False), (''template'', JUndef)])]"
    by code_simp
  then have m: "(JStr ''myapp'',
       [(''run'', JBool True), (''dbclient'', JStr ''postgres''), (''dbhost'', JStr ''localhost''),
        (''quickstart'', JBool False), (''template'', JUndef)])
       \<in> set (generatorCalls (fst (initProject quietEnv (JStr ''myapp'') databaseArgs)))"
    by simp
  from database_options_force_quickstart_false [OF h m] h c show ?thesis by simp
qed

text \<open>
  C2 as stated fails for \<open>myapp --quickstart --skip-cloud\<close> with an empty \<open>--dbname\<close>
  value: a database flag is present and the run does not exit at validation, yet the
  generator receives \<open>quickstart\<close> \<open>true\<close>, because \<open>initProject\<close> counts a database
  option only when its value is truthy.
\<close>

theorem empty_database_option_counterexample:
  "hasProp emptyDbQuickArgs ''dbname'' \<and>
   getProp emptyDbQuickArgs ''dbname'' = JStr [] \<and>
   \<not> hasDatabaseOptions emptyDbQuickArgs \<and>
   initProject quietEnv (JStr ''myapp'') emptyDbQuickArgs =
     ([CheckInstallPath ''myapp'', GenerateNewApp (JStr ''myapp'') emptyDbQuickArgs], Completed) \<and>
   passedQuickstart (fst (initProject quietEnv (JStr ''myapp'') emptyDbQuickArgs)) = [JBool True]"
  by code_simp

text \<open>
  C10, as the code has it. In a run without a truthy \<open>quickstart\<close> option, the options
  object of every generator call agrees with the parsed options on every property
  except \<open>quickstart\<close> (so \<open>template\<close> keeps the parsed template value), and its
  \<open>quickstart\<close> is \<open>false\<close> when a database option has a truthy (non-empty) value,
  \<open>true\<close> when no database option has one and the user picked the quickstart
  installation, and the parsed \<open>quickstart\<close> value otherwise:
  \<open>prompt.quick || programArgs.quickstart\<close> discards the answer \<open>false\<close>.
\<close>

theorem interactive_options_frame:
  assumes "\<not> truthy (getProp programArgs ''quickstart'')"
    and "(n, opts) \<in> set (generatorCalls (fst (initProject e projectName programArgs)))"
  shows "(\<forall>k. k \<noteq> ''quickstart'' \<longrightarrow> getProp opts k = getProp programArgs k) \<and>
         getProp opts ''quickstart'' =
           (if hasDatabaseOptions programArgs then JBool False
            else if answerQuick e then JBool True
            else getProp programArgs ''quickstart'')"
proof -
  let ?a = "setProp ''quickstart'' (JBool False) programArgs"
  from assms(2)
  have c: "(n, opts) \<in> set (generatorCalls (fst (initChecked e projectName programArgs)))"
    by (simp add: initProject_calls split: if_splits)
  from initChecked_interactive [OF assms(1) c] show ?thesis
  proof (elim disjE conjE)
    assume d: "\<not> hasDatabaseOptions programArgs"
      and "(n, opts) \<in> set (generatorCalls (fst (promptAndGenerate e projectName programArgs False)))"
    from promptAndGenerate_calls [OF this(2)] d assms(1) show ?thesis
      by (simp add: getProp_setProp promptUser_quick jsor_def)
  next
    assume d: "hasDatabaseOptions programArgs"
      and "(n, opts) \<in> set (generatorCalls (fst (promptAndGenerate e projectName ?a True)))"
    from promptAndGenerate_calls [OF this(2)] d show ?thesis
      by (simp add: getProp_setProp promptUser_quick jsor_def)
  qed
qed

theorem interactive_options_frame_witness:
  "\<not> truthy (getProp skipCloudArgs ''quickstart'') \<and>
   generatorCalls (fst (initProject quickAnswerEnv JUndef skipCloudArgs)) =
     [(JStr ''my-strapi-project'',
       [(''run'', JBool True), (''skipCloud'', JBool True), (''template'', JUndef),
        (''quickstart'', JBool True)])] \<and>
   getProp [(''run'', JBool True), (''skipCloud'', JBool True), (''template'', JUndef),
        (''quickstart'', JBool True)] ''skipCloud'' = getProp skipCloudArgs ''skipCloud'' \<and>
   getProp [(''run'', JBool True), (''skipCloud'', JBool True), (''template'', JUndef),
        (''quickstart'', JBool True)] ''quickstart'' = JBool True"
proof -
  let ?opts = "[(''run'', JBool True), (''skipCloud'', JBool True), (''template'', JUndef),
        (''quickstart'', JBool True)]"
  have h: "\<not> truthy (getProp skipCloudArgs ''quickstart'')" by code_simp
  have c: "generatorCalls (fst (initProject quickAnswerEnv JUndef skipCloudArgs)) =
     [(JStr ''my-strapi-project'', ?opts)]"
    by code_simp
  then have m: "(JStr ''my-strapi-project'', ?opts)
       \<in> set (generatorCalls (fst (initProject quickAnswerEnv JUndef skipCloudArgs)))"
    by simp
  have d: "\<not> hasDatabaseOptions skipCloudArgs" by code_simp
  have a: "answerQuick quickAnswerEnv" by (simp add: quickAnswerEnv_def)
  have k: "''skipCloud'' \<noteq> ''quickstart''" by simp
  from interactive_options_frame [OF h m]
  have "getProp ?opts ''skipCloud'' = getProp skipCloudArgs ''skipCloud''"
    and "getProp ?opts ''quickstart'' = JBool True"
    using k d a by auto
  with h c show ?thesis by simp
qed

text \<open>
  C10 as stated fails for \<open>myapp\<close> without flags when the user picks the custom
  installation: the prompt answer is \<open>false\<close>, and the \<open>quickstart\<close> handed to the
  generator is \<open>undefined\<close>, the parsed value, not the answer. It also fails for
  \<open>myapp --dbclient postgres --dbhost localhost\<close>: no answer is given, the parsed
  \<open>quickstart\<close> is \<open>undefined\<close>, and the generator receives \<open>false\<close>.
\<close>

theorem custom_answer_counterexample:
  "snd (promptUser quietEnv (JStr ''myapp'') noFlagArgs (hasDatabaseOptions noFlagArgs)) =
     [(''quick'', JBool False)] \<and>
   passedQuickstart (fst (initProject quietEnv (JStr ''myapp'') noFlagArgs)) = [JUndef] \<and>
   snd (promptUser quietEnv (JStr ''myapp'')
          (setProp ''quickstart'' (JBool False) databaseArgs) (hasDatabaseOptions databaseArgs)) = [] \<and>
   getProp databaseArgs ''quickstart'' = JUndef \<and>
   passedQuickstart (fst (initProject quietEnv (JStr ''myapp'') databaseArgs)) = [JBool False]"
  by code_simp

text \<open>
  C7, as the code has it. For \<open>myapp --quickstart --skip-cloud\<close> (no database option,
  no template) and a usable directory \<open>myapp\<close>, the whole run is the install-path check
  followed by one call of the generator: no question is asked, no cloud call is made,
  and the generator receives the project name \<open>myapp\<close> as its first argument and the
  parsed options object, unchanged, as its second, with \<open>quickstart\<close> and
  \<open>skipCloud\<close> true.
\<close>

theorem myapp_quickstart_skip_cloud:
  assumes "installPathOk e ''myapp''"
    and "getProp programArgs ''quickstart'' = JBool True"
    and "getProp programArgs ''skipCloud'' = JBool True"
    and "\<not> hasDatabaseOptions programArgs"
    and "\<not> truthy (getProp programArgs ''template'')"
  shows "initProject e (JStr ''myapp'') programArgs =
     ([CheckInstallPath ''myapp'', GenerateNewApp (JStr ''myapp'') programArgs], finish e)"
  using assms
  by (simp add: initProject_def initChecked_def generateApp_def checkInstallPath_def
      invalidTemplate_def)

theorem myapp_quickstart_skip_cloud_witness:
  "installPathOk quietEnv ''myapp'' \<and>
   getProp myappArgs ''quickstart'' = JBool True \<and>
   getProp myappArgs ''skipCloud'' = JBool True \<and>
   \<not> hasDatabaseOptions myappArgs \<and>
   \<not> truthy (getProp myappArgs ''template'') \<and>
   initProject quietEnv (JStr ''myapp'') myappArgs =
     ([CheckInstallPath ''myapp'',
       GenerateNewApp (JStr ''myapp'')
         [(''run'', JBool True), (''quickstart'', JBool True), (''skipCloud'', JBool True)]],
      Completed)"
proof -
  have h1: "installPathOk quietEnv ''myapp''" by (simp add: quietEnv_def)
  have h2: "getProp myappArgs ''quickstart'' = JBool True" by code_simp
  have h3: "getProp myappArgs ''skipCloud'' = JBool True" by code_simp
  have h4: "\<not> hasDatabaseOptions myappArgs" by code_simp
  have h5: "\<not> truthy (getProp myappArgs ''template'')" by code_simp
  have f: "finish quietEnv = Completed" by (simp add: finish_def quietEnv_def)
  from myapp_quickstart_skip_cloud [OF h1 h2 h3 h4 h5] h1 h2 h3 h4 h5 f
  show ?thesis by (simp add: myappArgs_def)
qed

text \<open>
  C7 as stated fails on the options record: in the run of
  \<open>myapp --quickstart --skip-cloud\<close> the options object handed to the generator is the
  parsed one, which has no \<open>directory\<close> property, whereas the record of the claim has
  \<open>directory: "myapp"\<close>. And when the directory \<open>myapp\<close> is not usable the generator
  is not called at all.
\<close>

theorem myapp_options_counterexample:
  "map snd (generatorCalls (fst (initProject quietEnv (JStr ''myapp'') myappArgs))) = [myappArgs] \<and>
   getProp myappArgs ''directory'' = JUndef \<and>
   getProp claimedMyappOptions ''directory'' = JStr ''myapp'' \<and>
   initProject occupiedEnv (JStr ''myapp'') myappArgs =
     ([CheckInstallPath ''myapp'', InstallPathError ''myapp''], Exited 1)"
  by code_simp

section \<open>The interactive prompt\<close>

text \<open>
  C9, as the code has it. \<open>promptUser\<close> asks for the directory name exactly when its
  directory argument is falsy (none, or an empty one), and for the installation type
  exactly when \<open>quickstart\<close> is not truthy and its database flag is off. In a run that
  passes the install-path check of the directory argument and the template check, the
  directory name is therefore asked for exactly when \<open>--quickstart\<close> was not passed and
  no directory, or an empty one, was supplied; and the installation type exactly when
  \<open>--quickstart\<close> was not passed and no database option has a truthy (non-empty) value.
\<close>

theorem prompt_questions_asked:
  assumes "firstCheckPasses e projectName"
    and "\<not> invalidTemplate e programArgs"
  shows "(''directory'' \<in> set (askedQuestions (fst (initProject e projectName programArgs)))) =
           (\<not> truthy (getProp programArgs ''quickstart'') \<and> \<not> truthy projectName) \<and>
         (''quick'' \<in> set (askedQuestions (fst (initProject e projectName programArgs)))) =
           (\<not> truthy (getProp programArgs ''quickstart'') \<and> \<not> hasDatabaseOptions programArgs) \<and>
         askedQuestions (fst (promptUser e name program hasDb)) =
           (if \<not> truthy name then [''directory''] else []) @
           (if \<not> truthy (getProp program ''quickstart'') \<and> \<not> hasDb then [''quick''] else [])"
proof -
  have f: "askedQuestions (firstCheckEvents e projectName) = []"
    by (simp add: firstCheckEvents_def checkInstallPath_asked) (simp add: askedQuestions_def)
  have n: "askedQuestions [ConsoleError m] = []" for m
    by (simp add: askedQuestions_def)
  have "askedQuestions (fst (initProject e projectName programArgs)) =
        askedQuestions (fst (initChecked e projectName programArgs))"
    by (simp add: initProject_checked [OF assms(1)] askedQuestions_append f)
  also have "\<dots> = (if truthy (getProp programArgs ''quickstart'') then []
                   else (if \<not> truthy projectName then [''directory''] else []) @
                        (if \<not> hasDatabaseOptions programArgs then [''quick''] else []))"
    using assms(2)
    by (simp add: initChecked_def Let_def promptAndGenerate_asked promptUser_asked
        getProp_setProp generateApp_asked n)
  finally show ?thesis by (simp add: promptUser_asked)
qed

theorem prompt_questions_asked_witness:
  "firstCheckPasses quietEnv JUndef \<and> \<not> invalidTemplate quietEnv noFlagArgs \<and>
   \<not> truthy (getProp noFlagArgs ''quickstart'') \<and> \<not> truthy JUndef \<and>
   \<not> hasDatabaseOptions noFlagArgs \<and>
   ''directory'' \<in> set (askedQuestions (fst (initProject quietEnv JUndef noFlagArgs))) \<and>
   ''quick'' \<in> set (askedQuestions (fst (initProject quietEnv JUndef noFlagArgs))) \<and>
   firstCheckPasses quietEnv (JStr ''myapp'') \<and> \<not> invalidTemplate quietEnv databaseArgs \<and>
   \<not> truthy (getProp databaseArgs ''quickstart'') \<and> hasDatabaseOptions databaseArgs \<and>
   ''directory'' \<notin> set (askedQuestions (fst (initProject quietEnv (JStr ''myapp'') databaseArgs))) \<and>
   ''quick'' \<notin> set (askedQuestions (fst (initProject quietEnv (JStr ''myapp'') databaseArgs))) \<and>
   \<not> invalidTemplate quietEnv myappArgs \<and> truthy (getProp myappArgs ''quickstart'') \<and>
   ''quick'' \<notin> set (askedQuestions (fst (initProject quietEnv (JStr ''myapp'') myappArgs))) \<and>
   askedQuestions (fst (promptUser quietEnv JUndef myappArgs False)) = [''directory'']"
proof -
  have a1: "firstCheckPasses quietEnv JUndef" by code_simp
  have a2: "\<not> invalidTemplate quietEnv noFlagArgs" by code_simp
  have a3: "\<not> truthy (getProp noFlagArgs ''quickstart'')" by code_simp
  have a4: "\<not> hasDatabaseOptions noFlagArgs" by code_simp
  have b1: "firstCheckPasses quietEnv (JStr ''myapp'')" by code_simp
  have b2: "\<not> invalidTemplate quietEnv databaseArgs" by code_simp
  have b3: "\<not> truthy (getProp databaseArgs ''quickstart'')" by code_simp
  have b4: "hasDatabaseOptions databaseArgs" by code_simp
  have c2: "\<not> invalidTemplate quietEnv myappArgs" by code_simp
  have c3: "truthy (getProp myappArgs ''quickstart'')" by code_simp
  from prompt_questions_asked [OF a1 a2, of JUndef myappArgs False]
    prompt_questions_asked [OF b1 b2, of JUndef myappArgs False]
    prompt_questions_asked [OF b1 c2, of JUndef myappArgs False]
    a1 a2 a3 a4 b1 b2 b3 b4 c2 c3
  show ?thesis by simp
qed

text \<open>
  C9 as stated fails for \<open>myapp --skip-cloud\<close> with an empty \<open>--dbname\<close> value: a
  database option is present, and the installation type is asked for all the same. It
  also fails for an empty directory argument: a directory argument was supplied, and
  the directory name is asked for all the same.
\<close>

theorem empty_values_prompt_counterexample:
  "hasProp emptyDbArgs ''dbname'' \<and>
   \<not> truthy (getProp emptyDbArgs ''quickstart'') \<and>
   askedQuestions (fst (initProject quietEnv (JStr ''myapp'') emptyDbArgs)) = [''quick''] \<and>
   directoryArgument (Some []) = JStr [] \<and>
   askedQuestions (fst (initProject quietEnv (directoryArgument (Some [])) skipCloudArgs)) =
     [''directory'', ''quick'']"
  by code_simp

section \<open>Cloud provisioning\<close>

text \<open>
  C3. When the \<open>skipCloud\<close> option is set, no run of \<open>initProject\<close>, quickstart or
  interactive, makes any of the calls of \<open>handleCloudProject\<close>: no logger, no config
  fetch, no login prompt, no project creation, no local save; whatever the directory,
  the other options and the answers of the collaborators are.
\<close>

theorem skip_cloud_no_cloud_events:
  assumes "truthy (getProp programArgs ''skipCloud'')"
  shows "filter isCloudEvent (fst (initProject e projectName programArgs)) = []"
  using assms
  by (simp add: initProject_def case_prod_beta checkInstallPath_no_cloud initChecked_skip
      split: option.splits)

theorem skip_cloud_no_cloud_events_witness:
  "truthy (getProp skipCloudArgs ''skipCloud'') \<and>
   filter isCloudEvent (fst (initProject quietEnv JUndef skipCloudArgs)) = [] \<and>
   fst (initProject quietEnv JUndef skipCloudArgs) =
     [Ask ''directory'', Ask ''quick'', CheckInstallPath ''my-strapi-project'',
      GenerateNewApp (JStr ''my-strapi-project'')
        [(''run'', JBool True), (''skipCloud'', JBool True), (''template'', JUndef),
         (''quickstart'', JUndef)]]"
proof -
  have h: "truthy (getProp skipCloudArgs ''skipCloud'')"
    by (simp add: skipCloudArgs_def getProp_def)
  have r: "fst (initProject quietEnv JUndef skipCloudArgs) =
     [Ask ''directory'', Ask ''quick'', CheckInstallPath ''my-strapi-project'',
      GenerateNewApp (JStr ''my-strapi-project'')
        [(''run'', JBool True), (''skipCloud'', JBool True), (''template'', JUndef),
         (''quickstart'', JUndef)]]"
    by code_simp
  from h r skip_cloud_no_cloud_events [OF h, of quietEnv JUndef] show ?thesis by simp
qed

text \<open>
  C5. When cloud provisioning runs (a truthy project name, \<open>skipCloud\<close> not set) and
  the first config fetch throws, the default error message is logged, the login prompt
  is not shown, no further cloud call is made, and the generator is called with the same
  name and options and the run ends as it would without the failure.
\<close>

theorem config_fetch_failure_aborts_cloud:
  assumes "truthy projectName"
    and "\<not> truthy (getProp options ''skipCloud'')"
    and "firstConfig e = Inl err"
  shows "generateApp e projectName options =
     ([CheckRequirements, CreateLogger, CloudApiFactory None, ConfigFetch, LoggerDebug,
       LoggerError ''An error occurred while trying to interact with Strapi Cloud. Use strapi deploy command once the project is generated.'',
       GenerateNewApp projectName options],
      finish e) \<and>
     PromptLogin \<notin> set (fst (generateApp e projectName options))"
  using assms by (simp add: generateApp_def handleCloudProject_def defaultErrorMessage_def)

theorem config_fetch_failure_aborts_cloud_witness:
  "truthy (JStr ''myapp'') \<and> \<not> truthy (getProp noFlagArgs ''skipCloud'') \<and>
   firstConfig offlineEnv = Inl PlainError \<and>
   generateApp offlineEnv (JStr ''myapp'') noFlagArgs =
     ([CheckRequirements, CreateLogger, CloudApiFactory None, ConfigFetch, LoggerDebug,
       LoggerError ''An error occurred while trying to interact with Strapi Cloud. Use strapi deploy command once the project is generated.'',
       GenerateNewApp (JStr ''myapp'') [(''run'', JBool True)]],
      Completed)"
proof -
  have h1: "truthy (JStr ''myapp'')" by simp
  have h2: "\<not> truthy (getProp noFlagArgs ''skipCloud'')" by code_simp
  have h3: "firstConfig offlineEnv = Inl PlainError" by (simp add: offlineEnv_def)
  have f: "finish offlineEnv = Completed" by (simp add: finish_def offlineEnv_def quietEnv_def)
  from config_fetch_failure_aborts_cloud [OF h1 h2 h3] h1 h2 h3 f
  show ?thesis by (simp add: noFlagArgs_def)
qed

text \<open>
  C4, as the code has it. When cloud provisioning reaches project creation (the first
  config fetch gave an intro text, the user chose to log in, token service, login,
  token, authenticated client and second config fetch succeeded) and \<open>createProject\<close>
  throws an error whose response has status 403, the message shown is the response body
  when that body is a string, and the fixed fallback message when there is no body or
  the body is not a string. It is shown by \<open>fail\<close> of the spinner when the spinner
  reads as spinning after \<open>start\<close>, and by \<open>logger.warn\<close> otherwise. Nothing is saved
  locally, and the generator is then called as usual.
\<close>

theorem forbidden_project_creation:
  assumes "truthy projectName"
    and "\<not> truthy (getProp options ''skipCloud'')"
    and "firstConfig e = Inr (Some introText)"
    and "userChoice e \<noteq> ''Skip''"
    and "tokenServiceFactory e = Inr ()"
    and "loginAction e = Inr True"
    and "retrieveToken e = Inr token"
    and "cloudApiFactoryToken e = Inr ()"
    and "secondConfig e = Inr defaults"
    and "createProject e = Inl (CloudError 403 b)"
  shows "generateApp e projectName options =
     ([CheckRequirements, CreateLogger, CloudApiFactory None, ConfigFetch,
       LoggerLog (parseToChalk e introText),
       PromptLogin, TokenServiceFactory, LoginAction, LoggerDebug, RetrieveToken,
       CloudApiFactory (Some token), LoggerDebug, ConfigFetch, LoggerDebug, LoggerDebug,
       SpinnerStart,
       CreateProject (projectPayload e (case defaults of None \<Rightarrow> [] | Some d \<Rightarrow> d) projectName),
       LoggerDebug,
       (if isSpinning e Started then SpinnerFail else LoggerWarn)
         (case b of TextBody s \<Rightarrow> s
          | NoBody \<Rightarrow> ''We are sorry, but we are not able to create a Strapi Cloud project for you at the moment.''
          | OtherBody \<Rightarrow> ''We are sorry, but we are not able to create a Strapi Cloud project for you at the moment.''),
       GenerateNewApp projectName options],
      finish e) \<and>
     (\<forall>project path. LocalSave project path \<notin> set (fst (generateApp e projectName options)))"
proof -
  have t: "cloudTry e projectName =
     ([TokenServiceFactory, LoginAction, LoggerDebug, RetrieveToken,
       CloudApiFactory (Some token), LoggerDebug, ConfigFetch, LoggerDebug, LoggerDebug,
       SpinnerStart,
       CreateProject (projectPayload e (case defaults of None \<Rightarrow> [] | Some d \<Rightarrow> d) projectName)],
      Started, Throw (CloudError 403 b))"
    using assms(5-10) by (simp add: cloudTry_def)
  have c: "cloudCatch e Started (CloudError 403 b) =
     [LoggerDebug, (if isSpinning e Started then SpinnerFail else LoggerWarn) (forbiddenMessage b)]"
    by (simp add: cloudCatch_def)
  have m: "forbiddenMessage b = (case b of TextBody s \<Rightarrow> s
                    | NoBody \<Rightarrow> ''We are sorry, but we are not able to create a Strapi Cloud project for you at the moment.''
                    | OtherBody \<Rightarrow> ''We are sorry, but we are not able to create a Strapi Cloud project for you at the moment.'')"
    by (simp add: forbiddenMessage_def forbiddenFallbackMessage_def split: body.splits)
  have h: "handleCloudProject e projectName =
     [CreateLogger, CloudApiFactory None, ConfigFetch, LoggerLog (parseToChalk e introText),
      PromptLogin,
      TokenServiceFactory, LoginAction, LoggerDebug, RetrieveToken,
      CloudApiFactory (Some token), LoggerDebug, ConfigFetch, LoggerDebug, LoggerDebug,
      SpinnerStart,
      CreateProject (projectPayload e (case defaults of None \<Rightarrow> [] | Some d \<Rightarrow> d) projectName),
      LoggerDebug, (if isSpinning e Started then SpinnerFail else LoggerWarn) (forbiddenMessage b)]"
    using assms(3,4) by (simp add: handleCloudProject_def t c)
  show ?thesis
    using assms(1,2) by (simp add: generateApp_def h m)
qed

theorem forbidden_project_creation_witness:
  "truthy (JStr ''myapp'') \<and> \<not> truthy (getProp noFlagArgs ''skipCloud'') \<and>
   firstConfig forbiddenEnv = Inr (Some ''{bold} Welcome {/bold} to the cloud'') \<and>
   userChoice forbiddenEnv \<noteq> ''Skip'' \<and>
   tokenServiceFactory forbiddenEnv = Inr () \<and> loginAction forbiddenEnv = Inr True \<and>
   retrieveToken forbiddenEnv = Inr ''token'' \<and> cloudApiFactoryToken forbiddenEnv = Inr () \<and>
   secondConfig forbiddenEnv = Inr None \<and>
   createProject forbiddenEnv = Inl (CloudError 403 (TextBody ''Trial limit reached'')) \<and>
   isSpinning forbiddenEnv Started \<and>
   generateApp forbiddenEnv (JStr ''myapp'') noFlagArgs =
     ([CheckRequirements, CreateLogger, CloudApiFactory None, ConfigFetch,
       LoggerLog ''Welcome to the cloud'',
       PromptLogin, TokenServiceFactory, LoginAction, LoggerDebug, RetrieveToken,
       CloudApiFactory (Some ''token''), LoggerDebug, ConfigFetch, LoggerDebug, LoggerDebug,
       SpinnerStart,
       CreateProject [(''nodeVersion'', JStr ''0.''), (''region'', JStr ''NYC''),
                      (''plan'', JStr ''trial''), (''name'', JStr ''myapp'')],
       LoggerDebug, SpinnerFail ''Trial limit reached'',
       GenerateNewApp (JStr ''myapp'') [(''run'', JBool True)]],
      Completed) \<and>
   \<not> isSpinning disabledSpinnerEnv Started \<and>
   createProject disabledSpinnerEnv = Inl (CloudError 403 (TextBody ''Trial limit reached'')) \<and>
   LoggerWarn ''Trial limit reached'' \<in> set (fst (generateApp disabledSpinnerEnv (JStr ''myapp'') noFlagArgs))"
proof -
  have h1: "truthy (JStr ''myapp'')" by simp
  have h2: "\<not> truthy (getProp noFlagArgs ''skipCloud'')" by code_simp
  have h3: "firstConfig forbiddenEnv = Inr (Some ''{bold} Welcome {/bold} to the cloud'')"
    by (simp add: forbiddenEnv_def quietEnv_def)
  have h4: "userChoice forbiddenEnv \<noteq> ''Skip''" by (simp add: forbiddenEnv_def quietEnv_def)
  have h5: "tokenServiceFactory forbiddenEnv = Inr ()" by (simp add: forbiddenEnv_def quietEnv_def)
  have h6: "loginAction forbiddenEnv = Inr True" by (simp add: forbiddenEnv_def quietEnv_def)
  have h7: "retrieveToken forbiddenEnv = Inr ''token''" by (simp add: forbiddenEnv_def quietEnv_def)
  have h8: "cloudApiFactoryToken forbiddenEnv = Inr ()" by (simp add: forbiddenEnv_def quietEnv_def)
  have h9: "secondConfig forbiddenEnv = Inr None" by (simp add: forbiddenEnv_def quietEnv_def)
  have h10: "createProject forbiddenEnv = Inl (CloudError 403 (TextBody ''Trial limit reached''))"
    by (simp add: forbiddenEnv_def)
  have s: "isSpinning forbiddenEnv Started" by (simp add: forbiddenEnv_def quietEnv_def)
  have i: "parseToChalk forbiddenEnv ''{bold} Welcome {/bold} to the cloud'' = ''Welcome to the cloud''"
    by code_simp
  have p: "projectPayload forbiddenEnv [] (JStr ''myapp'') =
     [(''nodeVersion'', JStr ''0.''), (''region'', JStr ''NYC''),
      (''plan'', JStr ''trial''), (''name'', JStr ''myapp'')]"
    by code_simp
  have f: "finish forbiddenEnv = Completed" by (simp add: finish_def forbiddenEnv_def quietEnv_def)
  have g3: "firstConfig disabledSpinnerEnv = Inr (Some ''{bold} Welcome {/bold} to the cloud'')"
    by (simp add: disabledSpinnerEnv_def forbiddenEnv_def quietEnv_def)
  have g4: "userChoice disabledSpinnerEnv \<noteq> ''Skip''"
    by (simp add: disabledSpinnerEnv_def forbiddenEnv_def quietEnv_def)
  have g5: "tokenServiceFactory disabledSpinnerEnv = Inr ()"
    by (simp add: disabledSpinnerEnv_def forbiddenEnv_def quietEnv_def)
  have g6: "loginAction disabledSpinnerEnv = Inr True"
    by (simp add: disabledSpinnerEnv_def forbiddenEnv_def quietEnv_def)
  have g7: "retrieveToken disabledSpinnerEnv = Inr ''token''"
    by (simp add: disabledSpinnerEnv_def forbiddenEnv_def quietEnv_def)
  have g8: "cloudApiFactoryToken disabledSpinnerEnv = Inr ()"
    by (simp add: disabledSpinnerEnv_def forbiddenEnv_def quietEnv_def)
  have g9: "secondConfig disabledSpinnerEnv = Inr None"
    by (simp add: disabledSpinnerEnv_def forbiddenEnv_def quietEnv_def)
  have g10: "createProject disabledSpinnerEnv = Inl (CloudError 403 (TextBody ''Trial limit reached''))"
    by (simp add: disabledSpinnerEnv_def forbiddenEnv_def)
  have gs: "\<not> isSpinning disabledSpinnerEnv Started" by (simp add: disabledSpinnerEnv_def)
  from forbidden_project_creation [OF h1 h2 h3 h4 h5 h6 h7 h8 h9 h10] s i p f
  have 1: "generateApp forbiddenEnv (JStr ''myapp'') noFlagArgs =
     ([CheckRequirements, CreateLogger, CloudApiFactory None, ConfigFetch,
       LoggerLog ''Welcome to the cloud'',
       PromptLogin, TokenServiceFactory, LoginAction, LoggerDebug, RetrieveToken,
       CloudApiFactory (Some ''token''), LoggerDebug, ConfigFetch, LoggerDebug, LoggerDebug,
       SpinnerStart,
       CreateProject [(''nodeVersion'', JStr ''0.''), (''region'', JStr ''NYC''),
                      (''plan'', JStr ''trial''), (''name'', JStr ''myapp'')],
       LoggerDebug, SpinnerFail ''Trial limit reached'',
       GenerateNewApp (JStr ''myapp'') [(''run'', JBool True)]],
      Completed)"
    by (simp add: noFlagArgs_def)
  from forbidden_project_creation [OF h1 h2 g3 g4 g5 g6 g7 g8 g9 g10] gs
  have 2: "LoggerWarn ''Trial limit reached'' \<in>
      set (fst (generateApp disabledSpinnerEnv (JStr ''myapp'') noFlagArgs))"
    by simp
  from h1 h2 h3 h4 h5 h6 h7 h8 h9 h10 s 1 gs g10 2 show ?thesis by simp
qed

text \<open>
  C4 as stated fails when the response of the refused creation has a body that is not a
  string: the body is present, and the message shown is the fallback, since
  \<open>handleCloudProject\<close> takes the body only when \<open>typeof\<close> gives \<open>"string"\<close>.
\<close>

theorem object_body_counterexample:
  "createProject objectBodyEnv = Inl (CloudError 403 OtherBody) \<and>
   OtherBody \<noteq> NoBody \<and>
   fst (generateApp objectBodyEnv (JStr ''myapp'') noFlagArgs) =
     [CheckRequirements, CreateLogger, CloudApiFactory None, ConfigFetch,
      LoggerLog ''Welcome to the cloud'',
      PromptLogin, TokenServiceFactory, LoginAction, LoggerDebug, RetrieveToken,
      CloudApiFactory (Some ''token''), LoggerDebug, ConfigFetch, LoggerDebug, LoggerDebug,
      SpinnerStart,
      CreateProject [(''nodeVersion'', JStr ''0.''), (''region'', JStr ''NYC''),
                     (''plan'', JStr ''trial''), (''name'', JStr ''myapp'')],
      LoggerDebug,
      SpinnerFail ''We are sorry, but we are not able to create a Strapi Cloud project for you at the moment.'',
      GenerateNewApp (JStr ''myapp'') [(''run'', JBool True)]]"
  by code_simp

end
